theory Spec2Isabelle
  imports Main
begin

section \<open>Values shared by the two bridges\<close>

text \<open>
  Payloads that the TypeScript types as \<^verbatim>\<open>unknown\<close> or as a record of unknowns are JSON
  values. Array objects live in a store and are named by their address, because the
  socket bridge hands out and takes over references to arrays of tools. Every promise the
  code creates is named by a number; a call of its \<^verbatim>\<open>resolve\<close> or \<^verbatim>\<open>reject\<close> is logged.
\<close>

datatype json =
  JNull | JBool bool | JNum int | JStr string | JArr "json list" | JObj "(string \<times> json) list"

type_synonym addr = nat
type_synonym promise = nat

section \<open>The socket bridge: class MCPBridge of src/mcp/MCPBridge.ts\<close>

subsection \<open>Messages and tools\<close>

datatype MCPMessageType = CONNECT | LIST_TOOLS | EXECUTE_TOOL | TOOL_RESULT | ERROR | PING | PONG

fun type_text :: "MCPMessageType \<Rightarrow> string" where
  "type_text CONNECT = ''connect''"
| "type_text LIST_TOOLS = ''list_tools''"
| "type_text EXECUTE_TOOL = ''execute_tool''"
| "type_text TOOL_RESULT = ''tool_result''"
| "type_text ERROR = ''error''"
| "type_text PING = ''ping''"
| "type_text PONG = ''pong''"

record MCPTool =
  name :: string
  description :: string
  parameters :: "(string \<times> string \<times> bool) list"

text \<open>
  One record for the interface \<^verbatim>\<open>MCPMessage\<close> and its four extensions: a field that a
  message object does not have is \<open>None\<close>. \<open>msg_tools\<close> is the reference to the array the
  message carries, so \<^verbatim>\<open>'tools' in message\<close> is \<open>msg_tools m \<noteq> None\<close>.
\<close>

record MCPMessage =
  msg_type :: MCPMessageType
  msg_id :: "string option"
  msg_timestamp :: "nat option"
  msg_tool :: "string option"
  msg_parameters :: "json option"
  msg_result :: "json option"
  msg_error :: "string option"
  msg_tools :: "addr option"

text \<open>
  The two closures that \<^verbatim>\<open>listTools\<close> and \<^verbatim>\<open>executeTool\<close> store in
  \<^verbatim>\<open>messageHandlers\<close>, each with the promise it settles, and what a promise is settled
  with.
\<close>

datatype handler = ListToolsHandler promise | ExecuteToolHandler promise

datatype settlement = Resolve_tools addr | Resolve_result "json option" | Reject string

subsection \<open>The state of a bridge\<close>

text \<open>
  The fields of the class come first, under their own names. \<open>ws\<close> is the handle of the
  current socket, \<open>reconnectTimer\<close> the handle of the last reconnect timer (it carries the
  delay it was set with), \<open>pingInterval\<close> whether the interval handle is set. Then what the
  object does to the world: the store of array objects, whether the reconnect timer is
  still due (set and neither cleared nor fired), every delay passed to \<^verbatim>\<open>setTimeout\<close>
  by \<^verbatim>\<open>scheduleReconnect\<close>, the number of sockets created, the frames sent, the
  subscribers of the event emitter and what was delivered to them, and the settlements.
  \<open>ready\<close> holds the sockets that are open (their \<^verbatim>\<open>open\<close> event has been raised and
  they were neither closed nor terminated): only on those does \<^verbatim>\<open>ws.send\<close> send.
  \<open>requestTimers\<close> holds the timers set by \<^verbatim>\<open>listTools\<close> and \<^verbatim>\<open>executeTool\<close> that
  have not fired, each with the id and the handler of its request; the code never clears
  one.
\<close>

record MCPBridge =
  ws :: "nat option"
  connected :: bool
  messageQueue :: "MCPMessage list"
  messageHandlers :: "string \<rightharpoonup> handler"
  tools :: addr
  reconnectAttempts :: nat
  reconnectTimer :: "nat option"
  pingInterval :: bool
  arrays :: "MCPTool list list"
  reconnectDue :: bool
  scheduled :: "nat list"
  sockets :: nat
  sent :: "(nat \<times> MCPMessage) list"
  subscribers :: "nat list"
  delivered :: "(nat \<times> MCPMessage) list"
  settled :: "(promise \<times> settlement) list"
  ready :: "nat list"
  requestTimers :: "(string \<times> handler) list"

text \<open>The object as the constructor leaves it: \<^verbatim>\<open>tools = []\<close> is the first array of the store.\<close>

definition new_bridge :: MCPBridge where
  "new_bridge =
     \<lparr>ws = None, connected = False, messageQueue = [], messageHandlers = Map.empty,
      tools = 0, reconnectAttempts = 0, reconnectTimer = None, pingInterval = False,
      arrays = [[]], reconnectDue = False, scheduled = [], sockets = 0, sent = [],
      subscribers = [], delivered = [], settled = [], ready = [], requestTimers = []\<rparr>"

definition alloc :: "MCPTool list \<Rightarrow> MCPBridge \<Rightarrow> addr \<times> MCPBridge" where
  "alloc xs s = (length (arrays s), s\<lparr>arrays := arrays s @ [xs]\<rparr>)"

definition settle :: "promise \<Rightarrow> settlement \<Rightarrow> MCPBridge \<Rightarrow> MCPBridge" where
  "settle p v s = s\<lparr>settled := settled s @ [(p, v)]\<rparr>"

subsection \<open>Connection life cycle\<close>

text \<open>
  \<^verbatim>\<open>connect\<close>, up to the point where it waits: nothing when connected, else a new socket
  replaces \<open>ws\<close>. The handlers it registers on the socket are the functions \<open>ws_open\<close>
  and \<open>ws_close\<close> below and, for a frame that parses, \<open>handleMessage\<close>; they act on the
  bridge, whichever socket raises them. The socket's constructor is taken to succeed.
\<close>

definition connect :: "MCPBridge \<Rightarrow> MCPBridge" where
  "connect s =
     (if connected s then s else s\<lparr>ws := Some (sockets s), sockets := Suc (sockets s)\<rparr>)"

text \<open>
  \<^verbatim>\<open>scheduleReconnect\<close>: clear the old timer, compute the delay from the attempt counter,
  increment the counter, set the timer. \<^verbatim>\<open>2 ** n * 1000\<close> is exact in a double while it is
  below the cap and only grows (to \<^verbatim>\<open>Infinity\<close>) above it, so the minimum is the one of
  the natural numbers.
\<close>

definition scheduleReconnect :: "MCPBridge \<Rightarrow> MCPBridge" where
  "scheduleReconnect s =
     (let delay = min (2 ^ reconnectAttempts s * 1000) 30000
      in s\<lparr>reconnectAttempts := Suc (reconnectAttempts s),
            reconnectTimer := Some delay,
            reconnectDue := True,
            scheduled := scheduled s @ [delay]\<rparr>)"

definition startPingInterval :: "MCPBridge \<Rightarrow> MCPBridge" where
  "startPingInterval s = s\<lparr>pingInterval := True\<rparr>"

definition stopPingInterval :: "MCPBridge \<Rightarrow> MCPBridge" where
  "stopPingInterval s = s\<lparr>pingInterval := False\<rparr>"

text \<open>
  \<^verbatim>\<open>sendMessage\<close>: queue and try to connect while the bridge is not connected or has no
  socket, else \<^verbatim>\<open>ws.send\<close>. On a socket that is not open \<^verbatim>\<open>ws.send\<close> sends nothing
  (it throws while the socket connects, and the error is caught and logged): the frame is
  lost.
\<close>

definition sendMessage :: "MCPMessage \<Rightarrow> MCPBridge \<Rightarrow> MCPBridge" where
  "sendMessage m s =
     (case (connected s, ws s) of
        (True, Some w) \<Rightarrow> if w \<in> set (ready s) then s\<lparr>sent := sent s @ [(w, m)]\<rparr> else s
      | _ \<Rightarrow>
          (let s1 = s\<lparr>messageQueue := messageQueue s @ [m]\<rparr>
           in if \<not> connected s1 then connect s1 else s1))"

definition processMessageQueue :: "MCPBridge \<Rightarrow> MCPBridge" where
  "processMessageQueue s =
     (if \<not> connected s \<or> messageQueue s = [] then s
      else fold sendMessage (messageQueue s) (s\<lparr>messageQueue := []\<rparr>))"

text \<open>
  What the socket library does to socket \<open>w\<close> before it raises the \<^verbatim>\<open>open\<close> and the
  \<^verbatim>\<open>close\<close> event on it. The handlers that follow are the closures registered by
  \<^verbatim>\<open>connect\<close>.
\<close>

definition socket_open :: "nat \<Rightarrow> MCPBridge \<Rightarrow> MCPBridge" where
  "socket_open w s = s\<lparr>ready := w # ready s\<rparr>"

definition socket_closed :: "nat \<Rightarrow> MCPBridge \<Rightarrow> MCPBridge" where
  "socket_closed w s = s\<lparr>ready := removeAll w (ready s)\<rparr>"

text \<open>The socket's \<^verbatim>\<open>open\<close> handler; the id and the time of the connect message are given.\<close>

definition ws_open :: "string \<Rightarrow> nat \<Rightarrow> MCPBridge \<Rightarrow> MCPBridge" where
  "ws_open i now s =
     sendMessage
       \<lparr>msg_type = CONNECT, msg_id = Some i, msg_timestamp = Some now, msg_tool = None,
        msg_parameters = None, msg_result = None, msg_error = None, msg_tools = None\<rparr>
       (processMessageQueue
          (startPingInterval (s\<lparr>connected := True, reconnectAttempts := 0\<rparr>)))"

text \<open>The socket's \<^verbatim>\<open>close\<close> handler.\<close>

definition ws_close :: "MCPBridge \<Rightarrow> MCPBridge" where
  "ws_close s = scheduleReconnect (stopPingInterval (s\<lparr>connected := False\<rparr>))"

text \<open>The reconnect timer's callback, run when a timer that is still due fires.\<close>

definition reconnect_fire :: "MCPBridge \<Rightarrow> MCPBridge" where
  "reconnect_fire s = (if reconnectDue s then connect (s\<lparr>reconnectDue := False\<rparr>) else s)"

text \<open>The ping interval's callback.\<close>

definition ping_tick :: "nat \<Rightarrow> MCPBridge \<Rightarrow> MCPBridge" where
  "ping_tick now s =
     (if pingInterval s \<and> connected s
      then sendMessage
             \<lparr>msg_type = PING, msg_id = None, msg_timestamp = Some now, msg_tool = None,
              msg_parameters = None, msg_result = None, msg_error = None, msg_tools = None\<rparr> s
      else s)"

definition disconnect :: "MCPBridge \<Rightarrow> MCPBridge" where
  "disconnect s =
     (let s1 = stopPingInterval s;
          s2 = (case reconnectTimer s1 of
                  Some t \<Rightarrow> s1\<lparr>reconnectTimer := None, reconnectDue := False\<rparr>
                | None \<Rightarrow> s1);
          s3 = (case ws s2 of
                  Some w \<Rightarrow> s2\<lparr>ws := None, ready := removeAll w (ready s2)\<rparr>
                | None \<Rightarrow> s2)
      in s3\<lparr>connected := False\<rparr>)"

text \<open>\<^verbatim>\<open>dispose\<close>: disconnect, then dispose the event emitter, which drops its listeners.\<close>

definition dispose :: "MCPBridge \<Rightarrow> MCPBridge" where
  "dispose s = (disconnect s)\<lparr>subscribers := []\<rparr>"

subsection \<open>Correlation and broadcast\<close>

text \<open>\<^verbatim>\<open>eventEmitter.fire\<close>: the message goes to every subscriber, in their order.\<close>

definition fire :: "MCPMessage \<Rightarrow> MCPBridge \<Rightarrow> MCPBridge" where
  "fire m s = s\<lparr>delivered := delivered s @ map (\<lambda>l. (l, m)) (subscribers s)\<rparr>"

text \<open>
  What a stored handler does with the response. The handler of \<^verbatim>\<open>listTools\<close> takes the
  response's array (or a new empty one) as the catalog and resolves with that same array;
  the handler of \<^verbatim>\<open>executeTool\<close> rejects on an error message, resolves on a tool result
  and rejects on every other type.
\<close>

definition run_handler :: "handler \<Rightarrow> MCPMessage \<Rightarrow> MCPBridge \<Rightarrow> MCPBridge" where
  "run_handler h response s =
     (case h of
        ListToolsHandler p \<Rightarrow>
          (let (a, s1) = (case msg_tools response of Some a \<Rightarrow> (a, s) | None \<Rightarrow> alloc [] s);
               s2 = s1\<lparr>tools := a\<rparr>
           in settle p (Resolve_tools (tools s2)) s2)
      | ExecuteToolHandler p \<Rightarrow>
          (if msg_type response = ERROR then
             settle p
               (Reject (case msg_error response of
                          Some e \<Rightarrow> if e = [] then ''Unknown error'' else e
                        | None \<Rightarrow> ''Unknown error'')) s
           else if msg_type response = TOOL_RESULT then
             settle p (Resolve_result (msg_result response)) s
           else
             settle p (Reject (''Unexpected response type: '' @ type_text (msg_type response))) s))"

text \<open>
  \<^verbatim>\<open>handleMessage\<close>: a tool list replaces the catalog, the event is fired, then the
  handler stored under the message's id, if the id is a non-empty string and has one, is
  run and deleted.
\<close>

definition handleMessage :: "MCPMessage \<Rightarrow> MCPBridge \<Rightarrow> MCPBridge" where
  "handleMessage message s =
     (let s1 = (if msg_type message = LIST_TOOLS
                then (case msg_tools message of Some a \<Rightarrow> s\<lparr>tools := a\<rparr> | None \<Rightarrow> s)
                else s);
          s2 = fire message s1
      in case msg_id message of
           None \<Rightarrow> s2
         | Some i \<Rightarrow>
             if i = [] then s2
             else (case messageHandlers s2 i of
                     None \<Rightarrow> s2
                   | Some h \<Rightarrow>
                       (let s3 = run_handler h message s2
                        in s3\<lparr>messageHandlers := (messageHandlers s3)(i := None)\<rparr>)))"

text \<open>
  \<^verbatim>\<open>listTools\<close> and \<^verbatim>\<open>executeTool\<close> after their attempt to connect: the body of the
  promise, with the generated id \<open>i\<close>, the time \<open>now\<close> and the promise \<open>p\<close> it creates:
  store the handler, send the request, set the timer. The function that follows each is
  its timer's callback.
\<close>

definition listTools :: "string \<Rightarrow> nat \<Rightarrow> promise \<Rightarrow> MCPBridge \<Rightarrow> MCPBridge" where
  "listTools i now p s =
     (let s1 = s\<lparr>messageHandlers := (messageHandlers s)(i \<mapsto> ListToolsHandler p)\<rparr>;
          s2 = sendMessage
                 \<lparr>msg_type = LIST_TOOLS, msg_id = Some i, msg_timestamp = Some now,
                  msg_tool = None, msg_parameters = None, msg_result = None,
                  msg_error = None, msg_tools = None\<rparr> s1
      in s2\<lparr>requestTimers := requestTimers s2 @ [(i, ListToolsHandler p)]\<rparr>)"

definition listTools_timeout :: "string \<Rightarrow> promise \<Rightarrow> MCPBridge \<Rightarrow> MCPBridge" where
  "listTools_timeout i p s =
     (if i \<noteq> [] \<and> messageHandlers s i \<noteq> None then
        (let (a, s1) = alloc [] (s\<lparr>messageHandlers := (messageHandlers s)(i := None)\<rparr>)
         in settle p (Resolve_tools a) s1)
      else s)"

definition executeTool ::
  "string \<Rightarrow> json \<Rightarrow> string \<Rightarrow> nat \<Rightarrow> promise \<Rightarrow> MCPBridge \<Rightarrow> MCPBridge" where
  "executeTool toolName params i now p s =
     (let s1 = s\<lparr>messageHandlers := (messageHandlers s)(i \<mapsto> ExecuteToolHandler p)\<rparr>;
          s2 = sendMessage
                 \<lparr>msg_type = EXECUTE_TOOL, msg_id = Some i, msg_timestamp = Some now,
                  msg_tool = Some toolName, msg_parameters = Some params, msg_result = None,
                  msg_error = None, msg_tools = None\<rparr> s1
      in s2\<lparr>requestTimers := requestTimers s2 @ [(i, ExecuteToolHandler p)]\<rparr>)"

definition executeTool_timeout :: "string \<Rightarrow> promise \<Rightarrow> MCPBridge \<Rightarrow> MCPBridge" where
  "executeTool_timeout i p s =
     (if i \<noteq> [] \<and> messageHandlers s i \<noteq> None then
        settle p (Reject ''Tool execution timed out'')
          (s\<lparr>messageHandlers := (messageHandlers s)(i := None)\<rparr>)
      else s)"

text \<open>
  A request timer fires: it is no longer due, and its callback runs. \<open>promise_of\<close> is the
  promise a handler settles.
\<close>

fun promise_of :: "handler \<Rightarrow> promise" where
  "promise_of (ListToolsHandler p) = p"
| "promise_of (ExecuteToolHandler p) = p"

definition request_timer :: "string \<Rightarrow> handler \<Rightarrow> MCPBridge \<Rightarrow> MCPBridge" where
  "request_timer i h s =
     (if (i, h) \<in> set (requestTimers s) then
        (let s1 = s\<lparr>requestTimers := remove1 (i, h) (requestTimers s)\<rparr>
         in case h of
              ListToolsHandler p \<Rightarrow> listTools_timeout i p s1
            | ExecuteToolHandler p \<Rightarrow> executeTool_timeout i p s1)
      else s)"

subsection \<open>The tool catalog\<close>

text \<open>\<^verbatim>\<open>getTools\<close> returns a new array with the elements of the catalog.\<close>

definition getTools :: "MCPBridge \<Rightarrow> addr \<times> MCPBridge" where
  "getTools s = alloc (arrays s ! tools s) s"

text \<open>
  What a caller can do to an array it holds a reference to: add an element at the end,
  remove the last one, or \<^verbatim>\<open>splice(start, deleteCount, ...items)\<close>, which removes,
  inserts and replaces.
\<close>

datatype array_op = Push MCPTool | Pop | Splice nat nat "MCPTool list"

fun apply_op :: "array_op \<Rightarrow> MCPTool list \<Rightarrow> MCPTool list" where
  "apply_op (Push t) xs = xs @ [t]"
| "apply_op Pop xs = butlast xs"
| "apply_op (Splice start deleteCount items) xs = take start xs @ items @ drop (start + deleteCount) xs"

text \<open>
  Such an operation, or any other change \<open>f\<close> of the contents, applied through the
  reference \<open>a\<close>: it changes the array at \<open>a\<close> and no other.
\<close>

definition mutate ::
  "addr \<Rightarrow> (MCPTool list \<Rightarrow> MCPTool list) \<Rightarrow> MCPBridge \<Rightarrow> MCPBridge" where
  "mutate a f s = s\<lparr>arrays := (arrays s)[a := f (arrays s ! a)]\<rparr>"

subsection \<open>Events\<close>

text \<open>
  Everything that can happen to a bridge: the calls of its public methods, the events of
  its sockets and the firing of its timers. \<open>carries_id i\<close> holds of the events that
  bring the id \<open>i\<close> with them: a frame with that id, a request registered under it, and
  the timer of such a request.
\<close>

datatype event =
    CallConnect
  | CallSend MCPMessage
  | CallListTools string nat promise
  | CallExecuteTool string json string nat promise
  | CallGetTools
  | CallDisconnect
  | CallDispose
  | SocketOpen nat string nat
  | SocketFrame MCPMessage
  | SocketClose nat
  | ReconnectTimer
  | PingTimer nat
  | RequestTimer string handler

fun step :: "event \<Rightarrow> MCPBridge \<Rightarrow> MCPBridge" where
  "step CallConnect s = connect s"
| "step (CallSend m) s = sendMessage m s"
| "step (CallListTools i now p) s = listTools i now p s"
| "step (CallExecuteTool toolName params i now p) s = executeTool toolName params i now p s"
| "step CallGetTools s = snd (getTools s)"
| "step CallDisconnect s = disconnect s"
| "step CallDispose s = dispose s"
| "step (SocketOpen w i now) s = ws_open i now (socket_open w s)"
| "step (SocketFrame m) s = handleMessage m s"
| "step (SocketClose w) s = ws_close (socket_closed w s)"
| "step ReconnectTimer s = reconnect_fire s"
| "step (PingTimer now) s = ping_tick now s"
| "step (RequestTimer i h) s = request_timer i h s"

fun carries_id :: "string \<Rightarrow> event \<Rightarrow> bool" where
  "carries_id i (SocketFrame m) = (msg_id m = Some i)"
| "carries_id i (CallListTools j now p) = (j = i)"
| "carries_id i (CallExecuteTool toolName params j now p) = (j = i)"
| "carries_id i (RequestTimer j h) = (j = i)"
| "carries_id i e = False"

section \<open>The process bridge: class OpenManusProcess\<close>

subsection \<open>Messages, callbacks and listeners\<close>

datatype OMMessageType =
  Initialize | ExecuteTool | ExecuteToolResponse | Prompt | PromptResponse | Error

text \<open>
  The interface \<^verbatim>\<open>MCPMessage\<close> of this class, here \<open>OMMessage\<close>: every field but the
  type is optional.
\<close>

record OMMessage =
  om_type :: OMMessageType
  om_id :: "string option"
  om_tools :: "json list option"
  om_content :: "string option"
  om_tool_name :: "string option"
  om_tool_input :: "json option"
  om_tool_output :: "string option"
  om_error :: "string option"

text \<open>A string or \<^verbatim>\<open>undefined\<close> as a condition: true for a string that is not empty.\<close>

fun truthy :: "string option \<Rightarrow> bool" where
  "truthy None = False"
| "truthy (Some x) = (x \<noteq> [])"

text \<open>
  The closures stored in \<^verbatim>\<open>messageCallbacks\<close> by \<^verbatim>\<open>sendPrompt\<close>, \<^verbatim>\<open>executeTool\<close> and
  \<^verbatim>\<open>getAvailableTools\<close>, and the values their promises are resolved with (no promise of
  this class is ever rejected).
\<close>

datatype callback = PromptCallback promise | ToolCallback promise | ToolsCallback promise

datatype om_value = Null | Text string | Tools "json list" | Flag bool

text \<open>
  A listener of \<^verbatim>\<open>onMessageListeners\<close> is either the closure that \<^verbatim>\<open>start\<close> registers to
  wait for readiness, which removes itself when it sees an \<^verbatim>\<open>initialize\<close> message, or a
  callback another component registered with \<^verbatim>\<open>onMessage\<close>, of which only the calls are
  recorded.
\<close>

datatype listener = StartListener promise | Subscriber nat

record OpenManusProcess =
  process :: "nat option"
  useMCP :: bool
  isReady :: bool
  messageBuffer :: string
  messageCallbacks :: "string \<rightharpoonup> callback"
  onMessageListeners :: "listener list"
  notified :: "(listener \<times> OMMessage) list"
  resolved :: "(promise \<times> om_value) list"
  written :: "string list"
  emitted :: "OMMessage list"

definition new_process :: "bool \<Rightarrow> OpenManusProcess" where
  "new_process mcp =
     \<lparr>process = None, useMCP = mcp, isReady = False, messageBuffer = [],
      messageCallbacks = Map.empty, onMessageListeners = [], notified = [], resolved = [],
      written = [], emitted = []\<rparr>"

definition resolve :: "promise \<Rightarrow> om_value \<Rightarrow> OpenManusProcess \<Rightarrow> OpenManusProcess" where
  "resolve p v s = s\<lparr>resolved := resolved s @ [(p, v)]\<rparr>"

text \<open>\<^verbatim>\<open>onMessage\<close> appends the callback to the listeners.\<close>

definition onMessage :: "listener \<Rightarrow> OpenManusProcess \<Rightarrow> OpenManusProcess" where
  "onMessage l s = s\<lparr>onMessageListeners := onMessageListeners s @ [l]\<rparr>"

text \<open>
  \<^verbatim>\<open>start\<close>, with the checks of the paths passed and the child spawned as \<open>pid\<close>: nothing
  when a child runs already, else the readiness listener is registered. (The 30 s timer
  of \<^verbatim>\<open>start\<close> only resolves the promise of \<^verbatim>\<open>start\<close> with false and is left out.)
\<close>

definition start :: "nat \<Rightarrow> promise \<Rightarrow> OpenManusProcess \<Rightarrow> OpenManusProcess" where
  "start pid p s =
     (case process s of
        Some c \<Rightarrow> s
      | None \<Rightarrow> onMessage (StartListener p) (s\<lparr>process := Some pid\<rparr>))"

text \<open>
  One call \<^verbatim>\<open>listener(message)\<close>. Disposing the registration removes the first
  occurrence of the callback from the array (\<^verbatim>\<open>indexOf\<close>, \<^verbatim>\<open>splice\<close>).
\<close>

definition call_listener :: "listener \<Rightarrow> OMMessage \<Rightarrow> OpenManusProcess \<Rightarrow> OpenManusProcess" where
  "call_listener l m s =
     (let s1 = s\<lparr>notified := notified s @ [(l, m)]\<rparr>
      in case l of
           Subscriber n \<Rightarrow> s1
         | StartListener p \<Rightarrow>
             if om_type m = Initialize then
               resolve p (Flag True)
                 (s1\<lparr>isReady := True,
                     onMessageListeners := remove1 l (onMessageListeners s1)\<rparr>)
             else s1)"

text \<open>
  The loop \<^verbatim>\<open>for (const listener of this.onMessageListeners) listener(message)\<close>: the
  array's iterator keeps an index into the array itself and compares it with the length
  the array has at that moment.
\<close>

function notify :: "OMMessage \<Rightarrow> nat \<Rightarrow> OpenManusProcess \<Rightarrow> OpenManusProcess" where
  "notify m i s =
     (if i < length (onMessageListeners s)
      then notify m (Suc i) (call_listener (onMessageListeners s ! i) m s)
      else s)"
  by pat_completeness auto
termination
proof (relation "measure (\<lambda>(m, i, s). length (onMessageListeners s) - i)")
  show "wf (measure (\<lambda>(m, i, s). length (onMessageListeners s) - i))"
    by simp
next
  fix m :: OMMessage and i :: nat and s :: OpenManusProcess
  assume "i < length (onMessageListeners s)"
  moreover have
    "length (onMessageListeners (call_listener (onMessageListeners s ! i) m s))
       \<le> length (onMessageListeners s)"
    by (cases "onMessageListeners s ! i")
       (simp_all add: call_listener_def resolve_def Let_def length_remove1)
  ultimately show
    "((m, Suc i, call_listener (onMessageListeners s ! i) m s), (m, i, s))
       \<in> measure (\<lambda>(m, i, s). length (onMessageListeners s) - i)"
    by simp
qed

text \<open>What a stored callback does with the response.\<close>

definition run_callback :: "callback \<Rightarrow> OMMessage \<Rightarrow> OpenManusProcess \<Rightarrow> OpenManusProcess" where
  "run_callback cb response s =
     (case cb of
        PromptCallback p \<Rightarrow>
          (if om_type response = PromptResponse \<and> truthy (om_content response) then
             resolve p (case om_content response of Some c \<Rightarrow> Text c | None \<Rightarrow> Null) s
           else if om_type response = Error then resolve p Null s
           else s)
      | ToolCallback p \<Rightarrow>
          (if om_type response = ExecuteToolResponse then
             resolve p (case om_tool_output response of
                          Some out \<Rightarrow> if out = [] then Null else Text out
                        | None \<Rightarrow> Null) s
           else if om_type response = Error then resolve p Null s
           else resolve p Null s)
      | ToolsCallback p \<Rightarrow>
          (case om_tools response of
             Some ts \<Rightarrow>
               if om_type response = Initialize then resolve p (Tools ts) s
               else resolve p Null s
           | None \<Rightarrow> resolve p Null s))"

text \<open>
  \<^verbatim>\<open>handleMessage\<close>: notify the listeners, run and delete the callback stored under the
  message's id, mark the process ready on \<^verbatim>\<open>initialize\<close>. \<open>emitted\<close> records the call.
\<close>

definition om_handleMessage :: "OMMessage \<Rightarrow> OpenManusProcess \<Rightarrow> OpenManusProcess" where
  "om_handleMessage message s =
     (let s1 = notify message 0 (s\<lparr>emitted := emitted s @ [message]\<rparr>);
          s2 = (case om_id message of
                  None \<Rightarrow> s1
                | Some i \<Rightarrow>
                    if i = [] then s1
                    else (case messageCallbacks s1 i of
                            None \<Rightarrow> s1
                          | Some cb \<Rightarrow>
                              (let s' = run_callback cb message s1
                               in s'\<lparr>messageCallbacks := (messageCallbacks s')(i := None)\<rparr>)))
      in if om_type message = Initialize then s2\<lparr>isReady := True\<rparr> else s2)"

subsection \<open>Requests\<close>

text \<open>
  \<^verbatim>\<open>sendMessage\<close> writes \<^verbatim>\<open>JSON.stringify(message)\<close> and a newline to the child's
  standard input and says whether it did. \<^verbatim>\<open>JSON.stringify\<close> is the parameter
  \<open>stringify\<close>.
\<close>

definition om_sendMessage ::
  "(OMMessage \<Rightarrow> string) \<Rightarrow> OMMessage \<Rightarrow> OpenManusProcess \<Rightarrow> bool \<times> OpenManusProcess" where
  "om_sendMessage stringify message s =
     (case process s of
        None \<Rightarrow> (False, s)
      | Some c \<Rightarrow> (True, s\<lparr>written := written s @ [stringify message @ [CHR 0x0A]]\<rparr>))"

text \<open>
  \<^verbatim>\<open>sendPrompt\<close> with the generated id and the promise it creates: it returns at once
  (null, or the prompt itself outside MCP mode) or leaves the promise \<open>p\<close> waiting for the
  callback or for the timer, which is \<open>sendPrompt_timeout\<close>.
\<close>

datatype prompt_result = Returned "string option" | Waiting promise

definition sendPrompt ::
  "(OMMessage \<Rightarrow> string) \<Rightarrow> string \<Rightarrow> string \<Rightarrow> promise \<Rightarrow> OpenManusProcess
     \<Rightarrow> prompt_result \<times> OpenManusProcess" where
  "sendPrompt stringify prompt messageId p s =
     (if process s = None then (Returned None, s)
      else if useMCP s then
        (case om_sendMessage stringify
                \<lparr>om_type = Prompt, om_id = Some messageId, om_tools = None,
                 om_content = Some prompt, om_tool_name = None, om_tool_input = None,
                 om_tool_output = None, om_error = None\<rparr> s of
           (False, s1) \<Rightarrow> (Returned None, s1)
         | (True, s1) \<Rightarrow>
             (Waiting p,
              s1\<lparr>messageCallbacks := (messageCallbacks s1)(messageId \<mapsto> PromptCallback p)\<rparr>))
      else (Returned (Some prompt), s\<lparr>written := written s @ [prompt @ [CHR 0x0A]]\<rparr>))"

definition sendPrompt_timeout :: "string \<Rightarrow> promise \<Rightarrow> OpenManusProcess \<Rightarrow> OpenManusProcess" where
  "sendPrompt_timeout messageId p s =
     (if messageCallbacks s messageId \<noteq> None then
        resolve p Null (s\<lparr>messageCallbacks := (messageCallbacks s)(messageId := None)\<rparr>)
      else s)"

text \<open>
  \<^verbatim>\<open>executeTool\<close> and \<^verbatim>\<open>getAvailableTools\<close> once the process runs: the body of the
  promise, and the callback of the timer each one sets.
\<close>

definition om_executeTool ::
  "(OMMessage \<Rightarrow> string) \<Rightarrow> string \<Rightarrow> json \<Rightarrow> string \<Rightarrow> promise \<Rightarrow> OpenManusProcess
     \<Rightarrow> OpenManusProcess" where
  "om_executeTool stringify toolName toolInput messageId p s =
     snd (om_sendMessage stringify
            \<lparr>om_type = ExecuteTool, om_id = Some messageId, om_tools = None,
             om_content = None, om_tool_name = Some toolName, om_tool_input = Some toolInput,
             om_tool_output = None, om_error = None\<rparr>
            (s\<lparr>messageCallbacks := (messageCallbacks s)(messageId \<mapsto> ToolCallback p)\<rparr>))"

definition getAvailableTools ::
  "(OMMessage \<Rightarrow> string) \<Rightarrow> string \<Rightarrow> promise \<Rightarrow> OpenManusProcess \<Rightarrow> OpenManusProcess" where
  "getAvailableTools stringify messageId p s =
     snd (om_sendMessage stringify
            \<lparr>om_type = Initialize, om_id = Some messageId, om_tools = None,
             om_content = None, om_tool_name = None, om_tool_input = None,
             om_tool_output = None, om_error = None\<rparr>
            (s\<lparr>messageCallbacks := (messageCallbacks s)(messageId \<mapsto> ToolsCallback p)\<rparr>))"



subsection \<open>The framer\<close>

text \<open>
  \<^verbatim>\<open>indexOf\<close> of a character, from the start and from a position, and \<^verbatim>\<open>substring\<close>.
\<close>

primrec indexOf :: "string \<Rightarrow> char \<Rightarrow> nat option" where
  "indexOf [] c = None"
| "indexOf (x # xs) c = (if x = c then Some 0 else map_option Suc (indexOf xs c))"

definition indexOf_from :: "string \<Rightarrow> char \<Rightarrow> nat \<Rightarrow> nat option" where
  "indexOf_from xs c k = map_option (\<lambda>i. i + k) (indexOf (drop k xs) c)"

definition substring :: "string \<Rightarrow> nat \<Rightarrow> nat \<Rightarrow> string" where
  "substring xs a b = take (b - a) (drop a xs)"

text \<open>
  The loop that looks for the closing brace: \<open>findEnd cs i depth\<close> scans the characters
  \<open>cs\<close> that start at index \<open>i\<close> of the buffer. Every \<^verbatim>\<open>{\<close> raises the depth, every
  \<^verbatim>\<open>}\<close> lowers it, and the first \<^verbatim>\<open>}\<close> that brings it to zero is the end.
\<close>

fun findEnd :: "string \<Rightarrow> nat \<Rightarrow> int \<Rightarrow> nat option" where
  "findEnd [] i depth = None"
| "findEnd (c # cs) i depth =
     (if c = CHR ''{'' then findEnd cs (Suc i) (depth + 1)
      else if c = CHR ''}'' then
        (if depth - 1 = 0 then Some i else findEnd cs (Suc i) (depth - 1))
      else findEnd cs (Suc i) depth)"

declare notify.simps [simp del]

text \<open>
  \<^verbatim>\<open>processOutput\<close>: append the output to the buffer, find the first \<^verbatim>\<open>{\<close> and its
  closing brace, parse the text between them and handle the message, cut the buffer after
  it and go on while the buffer is not empty. When the text does not parse, the buffer is
  cut at the next \<^verbatim>\<open>{\<close>, or emptied, and the call returns. \<^verbatim>\<open>JSON.parse\<close> is the
  parameter \<open>parse\<close>; \<open>None\<close> is its syntax error.
\<close>

function processOutput ::
  "(string \<Rightarrow> OMMessage option) \<Rightarrow> string \<Rightarrow> OpenManusProcess \<Rightarrow> OpenManusProcess" where
  "processOutput parse output s =
     (let s1 = s\<lparr>messageBuffer := messageBuffer s @ output\<rparr>
      in case indexOf (messageBuffer s1) CHR ''{'' of
           None \<Rightarrow> s1
         | Some startIndex \<Rightarrow>
             (case findEnd (drop startIndex (messageBuffer s1)) startIndex 0 of
                None \<Rightarrow> s1
              | Some endIndex \<Rightarrow>
                  (case parse (substring (messageBuffer s1) startIndex (endIndex + 1)) of
                     Some message \<Rightarrow>
                       (let s2 = om_handleMessage message s1;
                            s3 = s2\<lparr>messageBuffer := drop (endIndex + 1) (messageBuffer s2)\<rparr>
                        in if length (messageBuffer s3) > 0 then processOutput parse [] s3
                           else s3)
                   | None \<Rightarrow>
                       (case indexOf_from (messageBuffer s1) CHR ''{'' (startIndex + 1) of
                          Some nextStart \<Rightarrow>
                            s1\<lparr>messageBuffer := drop nextStart (messageBuffer s1)\<rparr>
                        | None \<Rightarrow> s1\<lparr>messageBuffer := []\<rparr>))))"
  by pat_completeness auto
termination
proof (relation "measure (\<lambda>(parse, output, s). length (messageBuffer s @ output))")
  show "wf (measure (\<lambda>(parse, output, s). length (messageBuffer s @ output)))"
    by simp
next
  fix parse :: "string \<Rightarrow> OMMessage option" and out :: string
    and s x xa startIndex endIndex message xb xc
  assume a: "x = s\<lparr>messageBuffer := messageBuffer s @ out\<rparr>"
    "indexOf (messageBuffer x) CHR ''{'' = Some startIndex"
    "xb = om_handleMessage message x"
    "xc = xb\<lparr>messageBuffer := drop (endIndex + 1) (messageBuffer xb)\<rparr>"
    "0 < length (messageBuffer xc)"
  have listener: "messageBuffer (call_listener l msg st) = messageBuffer st" for l msg st
    by (cases l) (simp_all add: call_listener_def resolve_def Let_def)
  have loop: "messageBuffer (notify msg k st) = messageBuffer st" for msg k st
  proof (induction msg k st rule: notify.induct)
    case (1 msg k st)
    show ?case
    proof (cases "k < length (onMessageListeners st)")
      case True
      with 1 show ?thesis
        by (subst notify.simps) (simp add: listener)
    next
      case False
      then show ?thesis by (subst notify.simps) simp
    qed
  qed
  have callback: "messageBuffer (run_callback cb msg st) = messageBuffer st" for cb msg st
    by (cases cb) (simp_all add: run_callback_def resolve_def split: option.splits)
  have handled: "messageBuffer (om_handleMessage msg st) = messageBuffer st" for msg st
    by (simp add: om_handleMessage_def Let_def loop callback split: option.splits)
  from a show "((parse, [], xc), (parse, out, s))
       \<in> measure (\<lambda>(parse, output, s). length (messageBuffer s @ output))"
    by (auto simp: handled)
qed

declare processOutput.simps [simp del]

text \<open>
  The handler of the child's standard output: in MCP mode every chunk goes to the framer,
  else the chunk is searched for the line that announces readiness.
\<close>

fun includes_text :: "string \<Rightarrow> string \<Rightarrow> bool" where
  "includes_text [] t = (t = [])"
| "includes_text (c # cs) t = (take (length t) (c # cs) = t \<or> includes_text cs t)"

definition stdout_data ::
  "(string \<Rightarrow> OMMessage option) \<Rightarrow> string \<Rightarrow> OpenManusProcess \<Rightarrow> OpenManusProcess" where
  "stdout_data parse output s =
     (if useMCP s then processOutput parse output s
      else if includes_text output ''Ready to process requests'' then s\<lparr>isReady := True\<rparr>
      else s)"

section \<open>Values used in the examples\<close>

definition pong :: MCPMessage where
  "pong =
     \<lparr>msg_type = PONG, msg_id = None, msg_timestamp = Some 5, msg_tool = None,
      msg_parameters = None, msg_result = None, msg_error = None, msg_tools = None\<rparr>"

definition late_result :: MCPMessage where
  "late_result =
     \<lparr>msg_type = TOOL_RESULT, msg_id = Some ''a1'', msg_timestamp = None,
      msg_tool = Some ''list_files'', msg_parameters = None,
      msg_result = Some (JArr [JStr ''a.ts'', JStr ''b.ts'']), msg_error = None,
      msg_tools = None\<rparr>"

definition tool1 :: MCPTool where
  "tool1 = \<lparr>name = ''list_files'', description = ''lists'', parameters = []\<rparr>"

definition tool2 :: MCPTool where
  "tool2 =
     \<lparr>name = ''read_file'', description = ''reads'',
      parameters = [(''string'', ''path'', True)]\<rparr>"

definition caller_edits :: "(MCPTool list \<Rightarrow> MCPTool list) list" where
  "caller_edits = [apply_op Pop, apply_op (Push tool2), apply_op (Splice 0 1 [tool2, tool2])]"

definition tool_list :: MCPMessage where
  "tool_list =
     \<lparr>msg_type = LIST_TOOLS, msg_id = None, msg_timestamp = None, msg_tool = None,
      msg_parameters = None, msg_result = None, msg_error = None, msg_tools = Some 1\<rparr>"

definition running_process :: OpenManusProcess where
  "running_process = (new_process True)\<lparr>process := Some 1\<rparr>"

definition empty_reply :: OMMessage where
  "empty_reply =
     \<lparr>om_type = PromptResponse, om_id = Some ''p1'', om_tools = None, om_content = None,
      om_tool_name = None, om_tool_input = None, om_tool_output = None, om_error = None\<rparr>"

definition initialize :: OMMessage where
  "initialize =
     \<lparr>om_type = Initialize, om_id = None, om_tools = None, om_content = None,
      om_tool_name = None, om_tool_input = None, om_tool_output = None, om_error = None\<rparr>"

definition brace_prompt :: OMMessage where
  "brace_prompt =
     \<lparr>om_type = Prompt, om_id = Some ''p1'', om_tools = None, om_content = Some ''}'',
      om_tool_name = None, om_tool_input = None, om_tool_output = None, om_error = None\<rparr>"

text \<open>
  The JSON text of \<open>brace_prompt\<close>, and the part of it up to the first closing brace; the
  same for a prompt response whose content is a closing brace; and the text of
  \<open>initialize\<close>.
\<close>

definition brace_prompt_text :: string where
  \<open>brace_prompt_text = ''{"type":"prompt","id":"p1","content":"}"}''\<close>

definition brace_prompt_cut :: string where
  \<open>brace_prompt_cut = ''{"type":"prompt","id":"p1","content":"}''\<close>

definition brace_response_text :: string where
  \<open>brace_response_text = ''{"type":"prompt_response","content":"}"}''\<close>

definition brace_response_cut :: string where
  \<open>brace_response_cut = ''{"type":"prompt_response","content":"}''\<close>

definition initialize_text :: string where
  \<open>initialize_text = ''{"type":"initialize"}''\<close>

text \<open>A parser that knows one text only, to stand for \<^verbatim>\<open>JSON.parse\<close> in an example.\<close>

definition only_parses :: "string \<Rightarrow> OMMessage \<Rightarrow> string \<Rightarrow> OMMessage option" where
  "only_parses text m t = (if t = text then Some m else None)"

definition after_dispose :: "event list" where
  "after_dispose =
     [SocketClose 0, ReconnectTimer, SocketOpen 1 ''c1'' 7, PingTimer 9, SocketFrame pong]"

definition pending_execute :: MCPBridge where
  "pending_execute = executeTool ''list_files'' (JObj []) ''a1'' 0 0 new_bridge"


text \<open>
  Every pending request with a non-empty id has its timer due.
\<close>

definition timers_cover :: "MCPBridge \<Rightarrow> bool" where
  "timers_cover s =
     (\<forall>i h. i \<noteq> [] \<and> messageHandlers s i = Some h \<longrightarrow> (i, h) \<in> set (requestTimers s))"

fun is_subscriber :: "listener \<Rightarrow> bool" where
  "is_subscriber (Subscriber n) = True"
| "is_subscriber (StartListener p) = False"

section \<open>What the operations of the socket bridge leave alone\<close>

lemma funpow_7: "(f ^^ 7) x = f (f (f (f (f (f (f x))))))"
  by (simp add: numeral_eq_Suc)

lemma connect_correlation [simp]:
  "requestTimers (connect s) = requestTimers s"
  "messageHandlers (connect s) = messageHandlers s"
  "settled (connect s) = settled s"
  "delivered (connect s) = delivered s"
  "subscribers (connect s) = subscribers s"
  "tools (connect s) = tools s"
  "arrays (connect s) = arrays s"
  by (simp_all add: connect_def)

lemma sendMessage_correlation [simp]:
  "requestTimers (sendMessage m s) = requestTimers s"
  "messageHandlers (sendMessage m s) = messageHandlers s"
  "settled (sendMessage m s) = settled s"
  "delivered (sendMessage m s) = delivered s"
  "subscribers (sendMessage m s) = subscribers s"
  "tools (sendMessage m s) = tools s"
  "arrays (sendMessage m s) = arrays s"
  by (simp_all add: sendMessage_def Let_def split: option.splits bool.splits)

lemma disconnect_correlation [simp]:
  "requestTimers (disconnect s) = requestTimers s"
  "messageHandlers (disconnect s) = messageHandlers s"
  "settled (disconnect s) = settled s"
  "arrays (disconnect s) = arrays s"
  by (simp_all add: disconnect_def stopPingInterval_def Let_def split: option.splits)

lemma run_handler_frame [simp]:
  "requestTimers (run_handler h m s) = requestTimers s"
  "messageHandlers (run_handler h m s) = messageHandlers s"
  "delivered (run_handler h m s) = delivered s"
  "subscribers (run_handler h m s) = subscribers s"
  by (cases h;
      simp add: run_handler_def settle_def alloc_def Let_def split: option.splits prod.splits)+


lemma handleMessage_other_id:
  "msg_id m \<noteq> Some i \<Longrightarrow> messageHandlers (handleMessage m s) i = messageHandlers s i"
  by (auto simp: handleMessage_def fire_def Let_def split: option.splits)


lemma request_registration [simp]:
  "messageHandlers (executeTool toolName params i now p s)
     = (messageHandlers s)(i \<mapsto> ExecuteToolHandler p)"
  "settled (executeTool toolName params i now p s) = settled s"
  "requestTimers (executeTool toolName params i now p s)
     = requestTimers s @ [(i, ExecuteToolHandler p)]"
  "messageHandlers (listTools i now p s) = (messageHandlers s)(i \<mapsto> ListToolsHandler p)"
  "settled (listTools i now p s) = settled s"
  "requestTimers (listTools i now p s) = requestTimers s @ [(i, ListToolsHandler p)]"
  by (simp_all add: executeTool_def listTools_def Let_def)

lemma fold_sendMessage_correlation [simp]:
  "requestTimers (fold sendMessage ms s) = requestTimers s"
  "messageHandlers (fold sendMessage ms s) = messageHandlers s"
  "settled (fold sendMessage ms s) = settled s"
  by (induction ms arbitrary: s) simp_all

lemma lifecycle_correlation [simp]:
  "requestTimers (ws_open j now s) = requestTimers s"
  "messageHandlers (ws_open j now s) = messageHandlers s"
  "requestTimers (ws_close s) = requestTimers s"
  "messageHandlers (ws_close s) = messageHandlers s"
  "requestTimers (socket_open w s) = requestTimers s"
  "messageHandlers (socket_open w s) = messageHandlers s"
  "requestTimers (socket_closed w s) = requestTimers s"
  "messageHandlers (socket_closed w s) = messageHandlers s"
  "requestTimers (reconnect_fire s) = requestTimers s"
  "messageHandlers (reconnect_fire s) = messageHandlers s"
  "requestTimers (ping_tick now s) = requestTimers s"
  "messageHandlers (ping_tick now s) = messageHandlers s"
  "requestTimers (dispose s) = requestTimers s"
  "messageHandlers (dispose s) = messageHandlers s"
  "settled (dispose s) = settled s"
  "requestTimers (snd (getTools s)) = requestTimers s"
  "messageHandlers (snd (getTools s)) = messageHandlers s"
  by (simp_all add: ws_open_def ws_close_def socket_open_def socket_closed_def
      reconnect_fire_def ping_tick_def dispose_def getTools_def alloc_def
      processMessageQueue_def startPingInterval_def stopPingInterval_def
      scheduleReconnect_def Let_def)

lemma handleMessage_requestTimers [simp]:
  "requestTimers (handleMessage m s) = requestTimers s"
  by (simp add: handleMessage_def fire_def Let_def split: option.splits)

lemma fold_handleMessage_requestTimers [simp]:
  "requestTimers (fold handleMessage replies s) = requestTimers s"
  by (induction replies arbitrary: s) simp_all

lemma request_timer_other_id:
  "j \<noteq> i \<Longrightarrow> messageHandlers (request_timer j h' s) i = messageHandlers s i"
  "j \<noteq> i \<Longrightarrow> (i, h) \<in> set (requestTimers s) \<Longrightarrow>
     (i, h) \<in> set (requestTimers (request_timer j h' s))"
  by (auto simp: request_timer_def listTools_timeout_def executeTool_timeout_def settle_def
      alloc_def Let_def split: handler.splits)

text \<open>
  An event that does not carry the id \<open>i\<close> leaves the entry of \<open>i\<close> in the pending map
  and the timer of its request as they are.
\<close>

lemma step_keeps_pending:
  assumes "\<not> carries_id i e"
  shows "messageHandlers (step e s) i = messageHandlers s i"
    and "(i, h) \<in> set (requestTimers s) \<Longrightarrow> (i, h) \<in> set (requestTimers (step e s))"
  using assms
  by (cases e; simp add: handleMessage_other_id request_timer_other_id)+

lemma fold_step_keeps_pending:
  assumes "\<forall>e \<in> set evs. \<not> carries_id i e"
  shows "messageHandlers (fold step evs s) i = messageHandlers s i
       \<and> ((i, h) \<in> set (requestTimers s) \<longrightarrow> (i, h) \<in> set (requestTimers (fold step evs s)))"
  using assms
proof (induction evs arbitrary: s)
  case Nil
  then show ?case by simp
next
  case (Cons e evs)
  then have e: "\<not> carries_id i e" and rest: "\<forall>e \<in> set evs. \<not> carries_id i e"
    by simp_all
  show ?case
    using Cons.IH [OF rest, of "step e s"] step_keeps_pending [OF e]
    by simp
qed


lemma mutate_frame [simp]:
  "tools (mutate a f s) = tools s"
  "length (arrays (mutate a f s)) = length (arrays s)"
  "b \<noteq> a \<Longrightarrow> arrays (mutate a f s) ! b = arrays s ! b"
  by (simp_all add: mutate_def)

lemma fold_mutate_frame:
  "tools (fold (mutate a) fs s) = tools s
   \<and> length (arrays (fold (mutate a) fs s)) = length (arrays s)
   \<and> (b \<noteq> a \<longrightarrow> arrays (fold (mutate a) fs s) ! b = arrays s ! b)"
  by (induction fs arbitrary: s) simp_all

section \<open>Reconnection\<close>

text \<open>
  C4. The delay before attempt \<open>n\<close> is \<open>min (2 ^ n * 1000) 30000\<close> milliseconds and the
  attempt counter is incremented with every scheduled attempt; seven consecutive
  schedulings from attempt 0 set the delays 1000, 2000, 4000, 8000, 16000, 30000, 30000.
\<close>

theorem reconnect_delay_sequence:
  "reconnectTimer (scheduleReconnect s) = Some (min (2 ^ reconnectAttempts s * 1000) 30000)
   \<and> scheduled (scheduleReconnect s)
       = scheduled s @ [min (2 ^ reconnectAttempts s * 1000) 30000]
   \<and> reconnectAttempts (scheduleReconnect s) = Suc (reconnectAttempts s)
   \<and> scheduled ((scheduleReconnect ^^ 7) (s\<lparr>reconnectAttempts := 0, scheduled := []\<rparr>))
       = [1000, 2000, 4000, 8000, 16000, 30000, 30000]"
  by (simp add: funpow_7 scheduleReconnect_def Let_def)

text \<open>
  C5 says that after \<^verbatim>\<open>disconnect\<close> or \<^verbatim>\<open>dispose\<close> no reconnect is scheduled or fired
  by a later internal event. The code does otherwise: \<^verbatim>\<open>disconnect\<close> clears the
  reconnect timer and terminates the socket, but the socket's \<^verbatim>\<open>close\<close> handler, which
  the termination raises, schedules a reconnect whatever the state, and when that timer
  fires \<^verbatim>\<open>connect\<close> opens a new socket. This holds from every state.
\<close>

theorem disconnect_then_close_reconnects:
  "reconnectTimer (disconnect s) = None
   \<and> ws (disconnect s) = None
   \<and> reconnectDue (ws_close (disconnect s))
   \<and> reconnectTimer (ws_close (disconnect s))
       = Some (min (2 ^ reconnectAttempts s * 1000) 30000)
   \<and> ws (reconnect_fire (ws_close (disconnect s))) = Some (sockets s)
   \<and> sockets (reconnect_fire (ws_close (disconnect s))) = Suc (sockets s)
   \<and> reconnectDue (ws_close (dispose s))
   \<and> ws (reconnect_fire (ws_close (dispose s))) = Some (sockets s)"
  by (simp add: ws_close_def disconnect_def dispose_def reconnect_fire_def connect_def
      scheduleReconnect_def stopPingInterval_def Let_def split: option.splits)

section \<open>Broadcast in the socket bridge\<close>

text \<open>
  In the socket bridge every message is fired to every subscriber, whether or not its id
  has a handler.
\<close>

lemma handleMessage_delivered:
  "delivered (handleMessage m s) = delivered s @ map (\<lambda>l. (l, m)) (subscribers s)"
  by (simp add: handleMessage_def fire_def Let_def split: option.splits)

section \<open>Disposal\<close>

text \<open>
  A handler that runs settles its promise once; so does a reply whose id has a handler,
  and the timer of a request whose entry is still pending.
\<close>

lemma run_handler_settles_once:
  "\<exists>v. settled (run_handler h m s) = settled s @ [(promise_of h, v)]"
  by (cases h)
     (simp_all add: run_handler_def settle_def alloc_def Let_def split: option.splits)

lemma handleMessage_matched:
  assumes "i \<noteq> []" and "msg_id m = Some i" and "messageHandlers s i = Some h"
  shows "messageHandlers (handleMessage m s) i = None"
    and "\<exists>v. settled (handleMessage m s) = settled s @ [(promise_of h, v)]"
proof -
  define s2 where
    "s2 = fire m (if msg_type m = LIST_TOOLS
                  then (case msg_tools m of Some a \<Rightarrow> s\<lparr>tools := a\<rparr> | None \<Rightarrow> s) else s)"
  have h2: "messageHandlers s2 i = Some h" and st: "settled s2 = settled s"
    using assms(3) by (simp_all add: s2_def fire_def split: option.splits)
  have eq: "handleMessage m s
      = (run_handler h m s2)\<lparr>messageHandlers := (messageHandlers (run_handler h m s2))(i := None)\<rparr>"
    using assms(1,2) h2 by (simp add: handleMessage_def s2_def [symmetric] Let_def)
  show "messageHandlers (handleMessage m s) i = None"
    by (simp add: eq)
  show "\<exists>v. settled (handleMessage m s) = settled s @ [(promise_of h, v)]"
    using run_handler_settles_once [of h m s2] by (simp add: eq st)
qed

lemma request_timer_due:
  assumes "i \<noteq> []" and "messageHandlers s i = Some h'" and "(i, h) \<in> set (requestTimers s)"
  shows "messageHandlers (request_timer i h s) i = None"
    and "settled (request_timer i h s)
           = settled s @ [(promise_of h,
                (case h of
                   ExecuteToolHandler p \<Rightarrow> Reject ''Tool execution timed out''
                 | ListToolsHandler p \<Rightarrow> Resolve_tools (length (arrays s))))]"
    and "arrays (request_timer i h s)
           = (case h of
                ExecuteToolHandler p \<Rightarrow> arrays s
              | ListToolsHandler p \<Rightarrow> arrays s @ [[]])"
  using assms
  by (cases h;
      simp add: request_timer_def listTools_timeout_def executeTool_timeout_def settle_def
        alloc_def Let_def)+

text \<open>
  In every state that a new bridge reaches, by whatever events, the timer of every
  pending request with a non-empty id is due: a request sets its timer when it stores its
  handler, and a timer that fires removes the entry.
\<close>

lemma timers_cover_new: "timers_cover new_bridge"
  by (simp add: timers_cover_def new_bridge_def)

lemma handleMessage_entries:
  "messageHandlers (handleMessage m s) i = Some h \<Longrightarrow> messageHandlers s i = Some h"
  by (auto simp: handleMessage_def fire_def Let_def split: option.splits if_splits)

lemma request_timer_entries:
  assumes "i \<noteq> []" and "messageHandlers (request_timer j h' s) i = Some h"
  shows "messageHandlers s i = Some h \<and> (j = i \<longrightarrow> (i, h') \<notin> set (requestTimers s))"
  using assms
  by (auto simp: request_timer_def listTools_timeout_def executeTool_timeout_def settle_def
      alloc_def Let_def split: handler.splits if_splits)

lemma timers_cover_step:
  assumes "timers_cover s"
  shows "timers_cover (step e s)"
proof (cases e)
  case (RequestTimer j h')
  show ?thesis
    unfolding timers_cover_def
  proof (intro allI impI)
    fix i h
    assume a: "i \<noteq> [] \<and> messageHandlers (step e s) i = Some h"
    then have old: "messageHandlers s i = Some h"
      and notdue: "j = i \<longrightarrow> (i, h') \<notin> set (requestTimers s)"
      using request_timer_entries [of i j h' s h] RequestTimer by simp_all
    have due: "(i, h) \<in> set (requestTimers s)"
      using assms a old by (simp add: timers_cover_def)
    show "(i, h) \<in> set (requestTimers (step e s))"
    proof (cases "(j, h') \<in> set (requestTimers s)")
      case False
      then show ?thesis using due RequestTimer by (simp add: request_timer_def)
    next
      case True
      with notdue have "j \<noteq> i" by auto
      then show ?thesis
        using due RequestTimer request_timer_other_id(2) [of j i h s h'] by simp
    qed
  qed
next
  case (SocketFrame m)
  then show ?thesis
    using assms handleMessage_entries [of m s]
    by (auto simp: timers_cover_def)
qed (insert assms, auto simp: timers_cover_def)

lemma timers_cover_reachable: "timers_cover (fold step evs new_bridge)"
proof -
  have "timers_cover s \<Longrightarrow> timers_cover (fold step evs s)" for s
    by (induction evs arbitrary: s) (simp_all add: timers_cover_step)
  then show ?thesis
    by (simp add: timers_cover_new)
qed

text \<open>
  C6 says that \<^verbatim>\<open>dispose\<close> rejects every pending request with a disposal reason. It
  does not: after a request of \<^verbatim>\<open>executeTool\<close> and \<^verbatim>\<open>dispose\<close> nothing is settled and
  the request is still in the pending map.
\<close>

theorem dispose_rejects_nothing_counterexample:
  "settled (dispose (executeTool ''list_files'' (JObj []) ''a1'' 0 0 new_bridge)) = []
   \<and> messageHandlers (dispose (executeTool ''list_files'' (JObj []) ''a1'' 0 0 new_bridge)) ''a1''
       = Some (ExecuteToolHandler 0)"
  by (simp add: new_bridge_def)

text \<open>
  C6 as amended. \<^verbatim>\<open>dispose\<close> settles nothing, leaves the pending map as it is and
  clears no request timer. A request that is pending at that moment, with its timer due,
  stays so through every later event that does not carry its id: socket events, the
  reconnect and ping timers, calls of the bridge's methods, frames and requests with
  other ids. It is then settled by whichever comes first. When its own timer fires, the
  entry is removed and the promise of \<^verbatim>\<open>executeTool\<close> is rejected with the timeout
  error, the promise of \<^verbatim>\<open>listTools\<close> resolved with a new empty array. When a reply
  with its id arrives (the bridge reconnects after \<^verbatim>\<open>dispose\<close> and sends what was
  queued), the handler runs, settles the promise once and is removed.
\<close>

theorem dispose_leaves_pending_to_reply_or_timer:
  assumes "i \<noteq> []"
    and "messageHandlers s i = Some h"
    and "(i, h) \<in> set (requestTimers s)"
    and "\<forall>e \<in> set evs. \<not> carries_id i e"
    and "msg_id reply = Some i"
  shows "messageHandlers (dispose s) = messageHandlers s
     \<and> settled (dispose s) = settled s
     \<and> requestTimers (dispose s) = requestTimers s
     \<and> (let s1 = fold step evs (dispose s);
             s2 = request_timer i h s1
         in messageHandlers s1 i = Some h
          \<and> (i, h) \<in> set (requestTimers s1)
          \<and> messageHandlers s2 i = None
          \<and> settled s2
              = settled s1 @ [(promise_of h,
                   (case h of
                      ExecuteToolHandler p \<Rightarrow> Reject ''Tool execution timed out''
                    | ListToolsHandler p \<Rightarrow> Resolve_tools (length (arrays s1))))]
          \<and> arrays s2
              = (case h of
                   ExecuteToolHandler p \<Rightarrow> arrays s1
                 | ListToolsHandler p \<Rightarrow> arrays s1 @ [[]])
          \<and> messageHandlers (handleMessage reply s1) i = None
          \<and> (\<exists>v. settled (handleMessage reply s1) = settled s1 @ [(promise_of h, v)]))"
proof -
  define s1 where "s1 = fold step evs (dispose s)"
  have pending: "messageHandlers s1 i = Some h"
    and due: "(i, h) \<in> set (requestTimers s1)"
    using fold_step_keeps_pending [OF assms(4), of "dispose s" h] assms(2,3)
    by (simp_all add: s1_def)
  show ?thesis
    using pending due request_timer_due [OF assms(1) pending due]
      handleMessage_matched [OF assms(1) assms(5) pending]
    by (simp add: s1_def [symmetric] Let_def)
qed

theorem dispose_leaves_pending_to_reply_or_timer_witness:
  "''a1'' \<noteq> []
   \<and> messageHandlers pending_execute ''a1'' = Some (ExecuteToolHandler 0)
   \<and> (''a1'', ExecuteToolHandler 0) \<in> set (requestTimers pending_execute)
   \<and> list_all (\<lambda>e. \<not> carries_id ''a1'' e) after_dispose
   \<and> msg_id late_result = Some ''a1''
   \<and> map (\<lambda>(w, m). (w, msg_type m)) (sent (fold step after_dispose (dispose pending_execute)))
       = [(1, EXECUTE_TOOL), (1, CONNECT), (1, PING)]
   \<and> settled (request_timer ''a1'' (ExecuteToolHandler 0)
                 (fold step after_dispose (dispose pending_execute)))
       = [(0, Reject ''Tool execution timed out'')]
   \<and> settled (handleMessage late_result (fold step after_dispose (dispose pending_execute)))
       = [(0, Resolve_result (Some (JArr [JStr ''a.ts'', JStr ''b.ts''])))]"
proof -
  have h1: "''a1'' \<noteq> []" by simp
  have h2: "messageHandlers pending_execute ''a1'' = Some (ExecuteToolHandler 0)"
    by (simp add: pending_execute_def)
  have h3: "(''a1'', ExecuteToolHandler 0) \<in> set (requestTimers pending_execute)"
    by (simp add: pending_execute_def)
  have h4: "\<forall>e \<in> set after_dispose. \<not> carries_id ''a1'' e"
    by (simp add: after_dispose_def pong_def)
  have h5: "msg_id late_result = Some ''a1''"
    by (simp add: late_result_def)
  have sent: "map (\<lambda>(w, m). (w, msg_type m)) (sent (fold step after_dispose (dispose pending_execute)))
       = [(1, EXECUTE_TOOL), (1, CONNECT), (1, PING)]"
    by (simp add: after_dispose_def pending_execute_def dispose_def disconnect_def
        executeTool_def sendMessage_def connect_def new_bridge_def ws_close_def ws_open_def
        socket_open_def socket_closed_def scheduleReconnect_def stopPingInterval_def
        startPingInterval_def processMessageQueue_def reconnect_fire_def ping_tick_def
        handleMessage_def fire_def pong_def Let_def)
  have settled0: "settled (fold step after_dispose (dispose pending_execute)) = []"
    by (simp add: after_dispose_def pending_execute_def new_bridge_def
        handleMessage_def fire_def pong_def ws_open_def ws_close_def socket_open_def socket_closed_def
        reconnect_fire_def ping_tick_def processMessageQueue_def startPingInterval_def
        stopPingInterval_def scheduleReconnect_def Let_def)
  have reply: "settled (handleMessage late_result (fold step after_dispose (dispose pending_execute)))
       = [(0, Resolve_result (Some (JArr [JStr ''a.ts'', JStr ''b.ts''])))]"
    by (simp add: after_dispose_def pending_execute_def dispose_def disconnect_def
        executeTool_def sendMessage_def connect_def new_bridge_def ws_close_def ws_open_def
        socket_open_def socket_closed_def scheduleReconnect_def stopPingInterval_def
        startPingInterval_def processMessageQueue_def reconnect_fire_def ping_tick_def
        handleMessage_def fire_def pong_def late_result_def run_handler_def settle_def Let_def)
  show ?thesis
    using dispose_leaves_pending_to_reply_or_timer
      [OF h1 h2 h3 h4 h5] h1 h2 h3 h4 h5 sent settled0 reply
    by (simp add: Let_def list_all_iff)
qed




section \<open>The tool catalog\<close>

text \<open>
  C9. \<^verbatim>\<open>getTools\<close> returns a new array: in every state whose catalog is an array of the
  store, the returned reference differs from the catalog's and holds the catalog's
  elements; whatever sequence \<open>fs\<close> of changes a caller applies to the returned array
  (additions, removals, replacements, or any other function of its contents), the
  catalog keeps its reference and its elements, and the next \<^verbatim>\<open>getTools\<close> returns the
  same tools as before.
\<close>

theorem getTools_defensive_copy:
  assumes "tools s < length (arrays s)"
  shows "let r = fst (getTools s);
             s1 = fold (mutate r) fs (snd (getTools s))
         in r \<noteq> tools s
          \<and> arrays (snd (getTools s)) ! r = arrays s ! tools s
          \<and> tools s1 = tools s
          \<and> arrays s1 ! tools s1 = arrays s ! tools s
          \<and> arrays (snd (getTools s1)) ! fst (getTools s1) = arrays s ! tools s"
proof -
  define r where "r = fst (getTools s)"
  define s0 where "s0 = snd (getTools s)"
  define s1 where "s1 = fold (mutate r) fs s0"
  have r: "r = length (arrays s)"
    and s0: "s0 = s\<lparr>arrays := arrays s @ [arrays s ! tools s]\<rparr>"
    by (simp_all add: r_def s0_def getTools_def alloc_def)
  have fresh: "tools s \<noteq> r"
    using assms r by simp
  have copy: "arrays s0 ! r = arrays s ! tools s"
    by (simp add: r s0)
  have t1: "tools s1 = tools s"
    using fold_mutate_frame [of r fs s0] by (simp add: s1_def s0)
  have "arrays s1 ! tools s = arrays s0 ! tools s"
    using fold_mutate_frame [of r fs s0 "tools s"] fresh by (simp add: s1_def)
  also have "\<dots> = arrays s ! tools s"
    using assms by (simp add: s0 nth_append)
  finally have kept: "arrays s1 ! tools s1 = arrays s ! tools s"
    by (simp add: t1)
  have again: "arrays (snd (getTools s1)) ! fst (getTools s1) = arrays s ! tools s"
    using kept by (simp add: getTools_def alloc_def)
  show ?thesis
    using fresh copy t1 kept again
    by (simp add: Let_def r_def [symmetric] s0_def [symmetric] s1_def [symmetric])
qed

theorem getTools_defensive_copy_witness:
  "tools (new_bridge\<lparr>arrays := [[tool1]]\<rparr>) < length (arrays (new_bridge\<lparr>arrays := [[tool1]]\<rparr>))
   \<and> fst (getTools (new_bridge\<lparr>arrays := [[tool1]]\<rparr>)) = 1
   \<and> arrays (fold (mutate 1) caller_edits (snd (getTools (new_bridge\<lparr>arrays := [[tool1]]\<rparr>))))
       = [[tool1], [tool2, tool2]]
   \<and> arrays (snd (getTools (fold (mutate 1) caller_edits
                                (snd (getTools (new_bridge\<lparr>arrays := [[tool1]]\<rparr>))))))
        ! fst (getTools (fold (mutate 1) caller_edits
                                (snd (getTools (new_bridge\<lparr>arrays := [[tool1]]\<rparr>)))))
       = [tool1]"
  using getTools_defensive_copy [of "new_bridge\<lparr>arrays := [[tool1]]\<rparr>" caller_edits]
  by (simp add: Let_def new_bridge_def getTools_def alloc_def mutate_def caller_edits_def)

text \<open>
  The hypothesis of \<open>getTools_defensive_copy\<close> holds in the new bridge and is kept by
  every operation, as long as the arrays that inbound messages carry are arrays of the
  store.
\<close>

lemma catalog_allocated_new: "tools new_bridge < length (arrays new_bridge)"
  by (simp add: new_bridge_def)

lemma catalog_allocated_handleMessage:
  assumes "tools s < length (arrays s)"
    and "case msg_tools m of None \<Rightarrow> True | Some a \<Rightarrow> a < length (arrays s)"
  shows "tools (handleMessage m s) < length (arrays (handleMessage m s))"
  using assms
  by (auto simp: handleMessage_def fire_def Let_def run_handler_def settle_def alloc_def
      split: option.splits handler.splits)

lemma catalog_allocated_kept:
  assumes "tools s < length (arrays s)"
  shows "tools (connect s) < length (arrays (connect s))"
    and "tools (sendMessage m s) < length (arrays (sendMessage m s))"
    and "tools (disconnect s) < length (arrays (disconnect s))"
    and "tools (dispose s) < length (arrays (dispose s))"
    and "tools (ws_close s) < length (arrays (ws_close s))"
    and "tools (listTools i now p s) < length (arrays (listTools i now p s))"
    and "tools (executeTool toolName params i now p s)
           < length (arrays (executeTool toolName params i now p s))"
    and "tools (listTools_timeout i p s) < length (arrays (listTools_timeout i p s))"
    and "tools (executeTool_timeout i p s) < length (arrays (executeTool_timeout i p s))"
    and "tools (snd (getTools s)) < length (arrays (snd (getTools s)))"
    and "tools (mutate a f s) < length (arrays (mutate a f s))"
  using assms
  by (simp_all add: dispose_def ws_close_def scheduleReconnect_def stopPingInterval_def
      listTools_def executeTool_def listTools_timeout_def executeTool_timeout_def
      settle_def alloc_def getTools_def Let_def disconnect_def split: option.splits)

text \<open>
  C10. Handling a message of type \<^verbatim>\<open>list_tools\<close> that has a \<^verbatim>\<open>tools\<close> field makes
  that array the catalog, in every state of the bridge and so also when no request is
  pending under the message's id; the store is not changed, and the next \<^verbatim>\<open>getTools\<close>
  returns the elements of the message's array.
\<close>

theorem unsolicited_tool_list_replaces_catalog:
  assumes "msg_type m = LIST_TOOLS" and "msg_tools m = Some a"
  shows "tools (handleMessage m s) = a
     \<and> arrays (handleMessage m s) = arrays s
     \<and> arrays (snd (getTools (handleMessage m s))) ! fst (getTools (handleMessage m s))
         = arrays s ! a"
proof -
  have t: "tools (handleMessage m s) = a"
    using assms
    by (cases "msg_id m")
       (auto simp: handleMessage_def fire_def Let_def run_handler_def settle_def
          split: option.splits handler.splits)
  have ar: "arrays (handleMessage m s) = arrays s"
    using assms
    by (cases "msg_id m")
       (auto simp: handleMessage_def fire_def Let_def run_handler_def settle_def
          split: option.splits handler.splits)
  show ?thesis
    using t ar by (simp add: getTools_def alloc_def)
qed

theorem unsolicited_tool_list_replaces_catalog_witness:
  "msg_type tool_list = LIST_TOOLS \<and> msg_tools tool_list = Some 1
   \<and> messageHandlers (new_bridge\<lparr>arrays := [[], [tool1]]\<rparr>) = Map.empty
   \<and> arrays (snd (getTools (new_bridge\<lparr>arrays := [[], [tool1]]\<rparr>)))
        ! fst (getTools (new_bridge\<lparr>arrays := [[], [tool1]]\<rparr>)) = []
   \<and> arrays (snd (getTools (handleMessage tool_list (new_bridge\<lparr>arrays := [[], [tool1]]\<rparr>))))
        ! fst (getTools (handleMessage tool_list (new_bridge\<lparr>arrays := [[], [tool1]]\<rparr>)))
       = [tool1]"
  using unsolicited_tool_list_replaces_catalog
    [of tool_list 1 "new_bridge\<lparr>arrays := [[], [tool1]]\<rparr>"]
  by (simp add: tool_list_def new_bridge_def getTools_def alloc_def)

section \<open>Correlation and broadcast in the process bridge\<close>

text \<open>
  C1 says that the promise of every correlated request is settled exactly once, whatever
  the reply. For \<^verbatim>\<open>sendPrompt\<close> it is not: its callback settles only on a prompt
  response with content and on an error, and \<^verbatim>\<open>handleMessage\<close> deletes the callback
  after every reply. After a prompt response without content (or a reply of another type)
  the promise is unsettled, the entry is gone, so the timer finds nothing and settles
  nothing either. The callback of \<^verbatim>\<open>executeTool\<close> resolves with null on the same reply.
\<close>

theorem sendPrompt_unexpected_reply_never_settles:
  "fst (sendPrompt stringify ''hello'' ''p1'' 0 running_process) = Waiting 0
   \<and> resolved (sendPrompt_timeout ''p1'' 0
        (om_handleMessage empty_reply
           (snd (sendPrompt stringify ''hello'' ''p1'' 0 running_process)))) = []
   \<and> messageCallbacks (om_handleMessage empty_reply
           (snd (sendPrompt stringify ''hello'' ''p1'' 0 running_process))) ''p1'' = None
   \<and> resolved (om_handleMessage (empty_reply\<lparr>om_type := Initialize\<rparr>)
           (snd (sendPrompt stringify ''hello'' ''p1'' 0 running_process))) = []
   \<and> resolved (om_handleMessage empty_reply
           (om_executeTool stringify ''list_files'' (JObj []) ''p1'' 0 running_process))
       = [(0, Null)]"
  by (simp add: sendPrompt_def om_sendMessage_def running_process_def new_process_def
      empty_reply_def om_handleMessage_def notify.simps run_callback_def resolve_def
      sendPrompt_timeout_def om_executeTool_def Let_def)

text \<open>
  While every listener is a callback registered with \<^verbatim>\<open>onMessage\<close>, the loop calls each
  of them once, in order, and so does \<^verbatim>\<open>handleMessage\<close>, whatever the message's id.
\<close>

lemma call_subscriber:
  "is_subscriber l \<Longrightarrow> call_listener l m s = s\<lparr>notified := notified s @ [(l, m)]\<rparr>"
  by (cases l) (simp_all add: call_listener_def)

lemma notify_subscribers:
  "list_all is_subscriber (drop i (onMessageListeners s)) \<Longrightarrow>
   notify m i s
     = s\<lparr>notified := notified s @ map (\<lambda>l. (l, m)) (drop i (onMessageListeners s))\<rparr>"
proof (induction m i s rule: notify.induct)
  case (1 m i s)
  show ?case
  proof (cases "i < length (onMessageListeners s)")
    case False
    then show ?thesis by (subst notify.simps) simp
  next
    case True
    let ?l = "onMessageListeners s ! i"
    let ?s = "s\<lparr>notified := notified s @ [(?l, m)]\<rparr>"
    have split: "drop i (onMessageListeners s) = ?l # drop (Suc i) (onMessageListeners s)"
      using True by (simp add: Cons_nth_drop_Suc)
    with "1.prems" have sub: "is_subscriber ?l"
      and rest: "list_all is_subscriber (drop (Suc i) (onMessageListeners s))"
      by simp_all
    have step: "call_listener ?l m s = ?s"
      using sub by (rule call_subscriber)
    have "notify m i s = notify m (Suc i) ?s"
      using True step by (subst notify.simps) simp
    also have "\<dots> = ?s\<lparr>notified := notified ?s
                  @ map (\<lambda>l. (l, m)) (drop (Suc i) (onMessageListeners ?s))\<rparr>"
      using "1.IH" [OF True] rest step by simp
    finally show ?thesis
      by (simp add: split)
  qed
qed

lemma run_callback_notified [simp]:
  "notified (run_callback cb m s) = notified s"
  by (cases cb) (simp_all add: run_callback_def resolve_def split: option.splits)

lemma om_handleMessage_notifies_subscribers:
  "list_all is_subscriber (onMessageListeners s) \<Longrightarrow>
   notified (om_handleMessage m s) = notified s @ map (\<lambda>l. (l, m)) (onMessageListeners s)"
  by (simp add: om_handleMessage_def Let_def notify_subscribers split: option.splits)

text \<open>
  C3 says that every inbound message is delivered to all broadcast subscribers. The
  socket bridge does so (\<open>handleMessage_delivered\<close>), and the process bridge does while
  only subscribers listen (\<open>om_handleMessage_notifies_subscribers\<close>). But the listener
  that \<^verbatim>\<open>start\<close> registers removes itself from the array while the loop of
  \<^verbatim>\<open>handleMessage\<close> runs over it, and the loop then steps over the listener that moved
  into its place: a subscriber registered after \<^verbatim>\<open>start\<close> is not called with the
  \<^verbatim>\<open>initialize\<close> message.
\<close>

theorem listener_after_start_misses_initialize:
  "onMessageListeners (onMessage (Subscriber 1) (start 1 0 (new_process True)))
     = [StartListener 0, Subscriber 1]
   \<and> notified (om_handleMessage initialize
        (onMessage (Subscriber 1) (start 1 0 (new_process True))))
       = [(StartListener 0, initialize)]
   \<and> onMessageListeners (om_handleMessage initialize
        (onMessage (Subscriber 1) (start 1 0 (new_process True))))
       = [Subscriber 1]"
  by (simp add: onMessage_def start_def new_process_def om_handleMessage_def notify.simps
      call_listener_def resolve_def initialize_def Let_def)

section \<open>Timeouts of correlated requests\<close>

text \<open>
  In the process bridge neither the listeners nor a callback touch the map of callbacks;
  handling a message deletes at most the entry of the message's id, and a message whose
  id has no entry runs no callback.
\<close>

lemma call_listener_messageCallbacks [simp]:
  "messageCallbacks (call_listener l m s) = messageCallbacks s"
  by (cases l) (simp_all add: call_listener_def resolve_def Let_def)

lemma notify_messageCallbacks [simp]:
  "messageCallbacks (notify m k s) = messageCallbacks s"
proof (induction m k s rule: notify.induct)
  case (1 m k s)
  show ?case
  proof (cases "k < length (onMessageListeners s)")
    case True
    with 1 show ?thesis by (subst notify.simps) simp
  next
    case False
    then show ?thesis by (subst notify.simps) simp
  qed
qed

lemma run_callback_messageCallbacks [simp]:
  "messageCallbacks (run_callback cb m s) = messageCallbacks s"
  by (cases cb) (simp_all add: run_callback_def resolve_def split: option.splits)




lemma om_registration [simp]:
  "messageCallbacks (om_executeTool stringify toolName toolInput i p s)
     = (messageCallbacks s)(i \<mapsto> ToolCallback p)"
  "messageCallbacks (getAvailableTools stringify i p s)
     = (messageCallbacks s)(i \<mapsto> ToolsCallback p)"
  by (simp_all add: om_executeTool_def getAvailableTools_def om_sendMessage_def
      split: option.splits)












section \<open>The framer\<close>

text \<open>
  C7 says that a message written by \<^verbatim>\<open>sendMessage\<close> and fed to the framer is decoded
  to the same message, also when a string in it holds a brace. The framer counts the
  braces inside string literals: for a prompt whose content is a closing brace it hands
  \<^verbatim>\<open>JSON.parse\<close> the text up to that brace. With any \<^verbatim>\<open>JSON.stringify\<close> that writes
  the message as \<open>brace_prompt_text\<close> and any \<^verbatim>\<open>JSON.parse\<close> that reads this text back
  and rejects the cut text (its last string is not closed), nothing is decoded and the
  buffer is emptied.
\<close>

theorem framer_cuts_inside_string_literal:
  assumes "stringify brace_prompt = brace_prompt_text"
    and "parse brace_prompt_text = Some brace_prompt"
    and "parse brace_prompt_cut = None"
  shows "written (snd (om_sendMessage stringify brace_prompt running_process))
           = [brace_prompt_text @ [CHR 0x0A]]
     \<and> emitted (processOutput parse (brace_prompt_text @ [CHR 0x0A]) running_process) = []
     \<and> messageBuffer (processOutput parse (brace_prompt_text @ [CHR 0x0A]) running_process) = []"
  using assms
  by (simp add: om_sendMessage_def running_process_def new_process_def processOutput.simps
      brace_prompt_text_def brace_prompt_cut_def substring_def indexOf_from_def Let_def)

theorem framer_cuts_inside_string_literal_witness:
  "(\<lambda>m. brace_prompt_text) brace_prompt = brace_prompt_text
   \<and> only_parses brace_prompt_text brace_prompt brace_prompt_text = Some brace_prompt
   \<and> only_parses brace_prompt_text brace_prompt brace_prompt_cut = None
   \<and> emitted (processOutput (only_parses brace_prompt_text brace_prompt)
                 (brace_prompt_text @ [CHR 0x0A]) running_process) = []"
  using framer_cuts_inside_string_literal
    [of "\<lambda>m. brace_prompt_text" "only_parses brace_prompt_text brace_prompt"]
  by (simp add: only_parses_def brace_prompt_text_def brace_prompt_cut_def)

text \<open>
  C8 says that the decoded messages do not depend on how the stream is cut into chunks.
  Take the stream of two messages, a prompt response whose content is a closing brace and
  an \<^verbatim>\<open>initialize\<close>, each followed by a newline, and any \<^verbatim>\<open>JSON.parse\<close> that rejects
  the cut text of the first and reads the second. Fed as one chunk, the failed parse cuts
  the buffer at the second message and returns, so nothing is decoded and the second
  message waits in the buffer; fed as two chunks cut between the messages, the failed
  parse empties the buffer and the second chunk is decoded.
\<close>

theorem chunk_boundary_changes_decoded_messages:
  assumes "parse brace_response_cut = None"
    and "parse initialize_text = Some initialize"
  shows "emitted (fold (stdout_data parse)
                    [brace_response_text @ [CHR 0x0A] @ initialize_text @ [CHR 0x0A]]
                    running_process) = []
     \<and> messageBuffer (fold (stdout_data parse)
                    [brace_response_text @ [CHR 0x0A] @ initialize_text @ [CHR 0x0A]]
                    running_process) = initialize_text @ [CHR 0x0A]
     \<and> emitted (fold (stdout_data parse)
                    [brace_response_text @ [CHR 0x0A], initialize_text @ [CHR 0x0A]]
                    running_process) = [initialize]"
  using assms
  by (simp add: stdout_data_def running_process_def new_process_def processOutput.simps
      brace_response_text_def brace_response_cut_def initialize_text_def substring_def
      indexOf_from_def om_handleMessage_def notify.simps initialize_def Let_def)

theorem chunk_boundary_changes_decoded_messages_witness:
  "only_parses initialize_text initialize brace_response_cut = None
   \<and> only_parses initialize_text initialize initialize_text = Some initialize
   \<and> emitted (fold (stdout_data (only_parses initialize_text initialize))
                    [brace_response_text @ [CHR 0x0A] @ initialize_text @ [CHR 0x0A]]
                    running_process) = []
   \<and> emitted (fold (stdout_data (only_parses initialize_text initialize))
                    [brace_response_text @ [CHR 0x0A], initialize_text @ [CHR 0x0A]]
                    running_process) = [initialize]"
  using chunk_boundary_changes_decoded_messages [of "only_parses initialize_text initialize"]
  by (simp add: only_parses_def brace_response_cut_def initialize_text_def)

end
